theory Spec2Isabelle
  imports Complex_Main
begin

section \<open>Values and runtime operations\<close>

text \<open>
  The converter reads a JSON document and a key-value configuration and writes a Manim
  script. The values of the loaded document are JSON values. Python's \<open>None\<close> is
  \<open>JNull\<close>. The numbers of the document (Python's \<open>int\<close> and \<open>float\<close>) are exact
  rationals, and arithmetic on them is exact: the rounding of IEEE arithmetic, its
  signed zero, and the \<open>OverflowError\<close> of converting an integer beyond the range of
  \<open>float\<close> are outside this development, and so are the literals \<open>NaN\<close> and
  \<open>Infinity\<close> that \<open>json.load\<close> accepts beyond JSON. Text is ASCII.
\<close>

datatype json =
    JNull
  | JBool bool
  | JNum rat
  | JStr string
  | JArr "json list"
  | JObj "(string \<times> json) list"

text \<open>The exceptions that the function can raise past its caller.\<close>

datatype error =
    InterpolationError
  | ValueError
  | StopIteration
  | TypeError
  | AttributeError
  | ZeroDivisionError

text \<open>A shape is one element of the \<open>elements\<close> array: a dictionary with string keys.\<close>

type_synonym shape = "string \<rightharpoonup> json"

text \<open>\<open>shape.get(k)\<close>: the value, or \<open>None\<close> when the key is absent.\<close>

definition shape_get :: "shape \<Rightarrow> string \<Rightarrow> json" where
  "shape_get s k = (case s k of None \<Rightarrow> JNull | Some v \<Rightarrow> v)"

text \<open>\<open>shape.get(k, d)\<close>: the default only replaces an absent key, not a present \<open>null\<close>.\<close>

definition shape_get_default :: "shape \<Rightarrow> string \<Rightarrow> json \<Rightarrow> json" where
  "shape_get_default s k d = (case s k of None \<Rightarrow> d | Some v \<Rightarrow> v)"

text \<open>
  The operand of an arithmetic operator: numbers, and booleans (a \<open>bool\<close> is an \<open>int\<close> in
  Python). With any other operand the operators used by the converter raise \<open>TypeError\<close>.
\<close>

fun num_of :: "json \<Rightarrow> rat option" where
  "num_of (JNum r) = Some r"
| "num_of (JBool b) = Some (if b then 1 else 0)"
| "num_of _ = None"

text \<open>
  The key under which a value is stored in a dictionary: equal values are one key
  (\<open>True == 1\<close>, \<open>1 == 1.0\<close>); lists and dictionaries are unhashable.
\<close>

fun dict_key :: "json \<Rightarrow> json option" where
  "dict_key (JArr _) = None"
| "dict_key (JObj _) = None"
| "dict_key (JBool b) = Some (JNum (if b then 1 else 0))"
| "dict_key v = Some v"

text \<open>Python's \<open>a == b\<close> for a hashable right operand \<open>b\<close>.\<close>

definition py_eq :: "json \<Rightarrow> json \<Rightarrow> bool" where
  "py_eq a b = (dict_key a \<noteq> None \<and> dict_key a = dict_key b)"

subsection \<open>Floats\<close>

text \<open>
  The canvas size, the scale and the positions on the canvas are floats: a number, or
  one of the three values \<open>inf\<close>, \<open>-inf\<close> and \<open>nan\<close> that \<open>float\<close> reads from a
  configuration value.
\<close>

datatype pyfloat = Fin rat | PInf | NInf | NaN

text \<open>\<open>a / w\<close> for a float \<open>a\<close> and a number \<open>w\<close> of the document other than zero.\<close>

fun fdiv :: "pyfloat \<Rightarrow> rat \<Rightarrow> pyfloat" where
  "fdiv (Fin a) w = Fin (a / w)"
| "fdiv PInf w = (if 0 < w then PInf else NInf)"
| "fdiv NInf w = (if 0 < w then NInf else PInf)"
| "fdiv NaN w = NaN"

text \<open>\<open>a * s\<close> for a number \<open>a\<close> and a float \<open>s\<close>: zero times an infinity is \<open>nan\<close>.\<close>

fun fmul :: "rat \<Rightarrow> pyfloat \<Rightarrow> pyfloat" where
  "fmul a (Fin s) = Fin (a * s)"
| "fmul a PInf = (if a = 0 then NaN else if 0 < a then PInf else NInf)"
| "fmul a NInf = (if a = 0 then NaN else if 0 < a then NInf else PInf)"
| "fmul a NaN = NaN"

text \<open>\<open>a < b\<close>: every comparison with \<open>nan\<close> is false.\<close>

fun fless :: "pyfloat \<Rightarrow> pyfloat \<Rightarrow> bool" where
  "fless NaN b = False"
| "fless a NaN = False"
| "fless (Fin a) (Fin b) = (a < b)"
| "fless a NInf = False"
| "fless NInf b = True"
| "fless PInf b = False"
| "fless (Fin a) PInf = True"

text \<open>\<open>min(a, b)\<close>: the second argument only when it is less than the first.\<close>

definition fmin :: "pyfloat \<Rightarrow> pyfloat \<Rightarrow> pyfloat" where
  "fmin a b = (if fless b a then b else a)"

subsection \<open>Strings\<close>

abbreviation nl :: char where
  "nl \<equiv> CHR 0x0A"

text \<open>\<open>str.isspace\<close> on one ASCII character.\<close>

definition isspace :: "char \<Rightarrow> bool" where
  "isspace c = (c \<in> set [CHR 0x09, CHR 0x0A, CHR 0x0B, CHR 0x0C, CHR 0x0D,
                          CHR 0x1C, CHR 0x1D, CHR 0x1E, CHR 0x1F, CHR '' ''])"

definition lowers :: string where
  "lowers = ''abcdefghijklmnopqrstuvwxyz''"

definition uppers :: string where
  "uppers = ''ABCDEFGHIJKLMNOPQRSTUVWXYZ''"

definition is_cased :: "char \<Rightarrow> bool" where
  "is_cased c = (c \<in> set lowers \<or> c \<in> set uppers)"

definition to_upper :: "char \<Rightarrow> char" where
  "to_upper c = (case map_of (zip lowers uppers) c of None \<Rightarrow> c | Some u \<Rightarrow> u)"

definition to_lower :: "char \<Rightarrow> char" where
  "to_lower c = (case map_of (zip uppers lowers) c of None \<Rightarrow> c | Some l \<Rightarrow> l)"

text \<open>
  \<open>str.title\<close>: a cased character is upper-cased when the character before it is not
  cased, and lower-cased otherwise. The flag is "the previous character is cased".
\<close>

fun title_from :: "bool \<Rightarrow> string \<Rightarrow> string" where
  "title_from prev [] = []"
| "title_from prev (c # cs) =
     (if prev then to_lower c else to_upper c) # title_from (is_cased c) cs"

definition title :: "string \<Rightarrow> string" where
  "title s = title_from False s"

text \<open>\<open>s.split("\n")\<close>: never empty; an empty string gives one empty line.\<close>

fun split_nl :: "string \<Rightarrow> string list" where
  "split_nl [] = [ [] ]"
| "split_nl (c # cs) =
     (if c = nl then [] # split_nl cs
      else (case split_nl cs of [] \<Rightarrow> [ [c] ] | l # ls \<Rightarrow> (c # l) # ls))"

text \<open>\<open>sep.join(parts)\<close>.\<close>

fun join :: "string \<Rightarrow> string list \<Rightarrow> string" where
  "join sep [] = []"
| "join sep [p] = p"
| "join sep (p # q # ps) = p @ sep @ join sep (q # ps)"

subsection \<open>Reading a number from a configuration value\<close>

text \<open>
  \<open>float(s)\<close> on a string: surrounding whitespace is dropped, then an optional sign, then
  either \<open>inf\<close>, \<open>infinity\<close> or \<open>nan\<close> in any case, or a decimal number (digits with an
  optional fraction, or a fraction alone) with an optional exponent; single underscores
  may separate digits. \<open>None\<close> stands for \<open>ValueError\<close>. A decimal number too large for
  a float is an infinity and one too small is zero; in between its value is kept exact.
\<close>

definition is_digit :: "char \<Rightarrow> bool" where
  "is_digit c = (c \<in> set ''0123456789'')"

definition digit_val :: "char \<Rightarrow> nat" where
  "digit_val c = (case map_of (zip ''0123456789'' [0, 1, 2, 3, 4, 5, 6, 7, 8, 9]) c of
                    None \<Rightarrow> 0 | Some d \<Rightarrow> d)"

fun digitpart :: "string \<Rightarrow> bool" where
  "digitpart [] = False"
| "digitpart [c] = is_digit c"
| "digitpart (c # d # cs) =
     (is_digit c \<and> (if d = CHR ''_'' then digitpart cs else digitpart (d # cs)))"

definition digits_val :: "string \<Rightarrow> nat" where
  "digits_val s = foldl (\<lambda>n c. 10 * n + digit_val c) 0 (filter is_digit s)"

definition strip :: "string \<Rightarrow> string" where
  "strip s = rev (dropWhile isspace (rev (dropWhile isspace s)))"

definition unsigned_part :: "string \<Rightarrow> bool \<times> string" where
  "unsigned_part s =
     (case s of
        c # cs \<Rightarrow> (if c = CHR ''-'' then (True, cs)
                   else if c = CHR ''+'' then (False, cs) else (False, s))
      | [] \<Rightarrow> (False, s))"

definition mantissa_val :: "string \<Rightarrow> rat option" where
  "mantissa_val m =
     (let ip = takeWhile (\<lambda>c. c \<noteq> CHR ''.'') m;
          rest = dropWhile (\<lambda>c. c \<noteq> CHR ''.'') m
      in case rest of
           [] \<Rightarrow> (if digitpart ip then Some (of_nat (digits_val ip)) else None)
         | _ # fp \<Rightarrow>
             (if (ip = [] \<or> digitpart ip) \<and> (fp = [] \<or> digitpart fp) \<and> \<not> (ip = [] \<and> fp = [])
              then Some (of_nat (digits_val ip)
                         + of_nat (digits_val fp) / 10 ^ length (filter is_digit fp))
              else None))"

definition exponent_val :: "string \<Rightarrow> rat option" where
  "exponent_val e =
     (case unsigned_part e of
        (neg, ds) \<Rightarrow>
          (if digitpart ds
           then Some (if neg then 1 / 10 ^ digits_val ds else 10 ^ digits_val ds)
           else None))"

definition special_val :: "bool \<Rightarrow> string \<Rightarrow> pyfloat option" where
  "special_val neg body =
     (let word = map to_lower body in
      if word = ''inf'' \<or> word = ''infinity'' then Some (if neg then NInf else PInf)
      else if word = ''nan'' then Some NaN
      else None)"

definition to_float :: "rat \<Rightarrow> pyfloat" where
  "to_float r =
     (if 2 ^ 1024 - 2 ^ 970 \<le> \<bar>r\<bar> then (if 0 < r then PInf else NInf)
      else if \<bar>r\<bar> \<le> 1 / 2 ^ 1075 then Fin 0
      else Fin r)"

definition decimal_val :: "string \<Rightarrow> rat option" where
  "decimal_val body =
     (let m = takeWhile (\<lambda>c. c \<noteq> CHR ''e'' \<and> c \<noteq> CHR ''E'') body;
          rest = dropWhile (\<lambda>c. c \<noteq> CHR ''e'' \<and> c \<noteq> CHR ''E'') body;
          scale = (case rest of [] \<Rightarrow> Some 1 | _ # e \<Rightarrow> exponent_val e)
      in case (mantissa_val m, scale) of
           (Some v, Some k) \<Rightarrow> Some (v * k)
         | _ \<Rightarrow> None)"

definition py_float :: "string \<Rightarrow> pyfloat option" where
  "py_float s =
     (case unsigned_part (strip s) of
        (neg, body) \<Rightarrow>
          (case special_val neg body of
             Some f \<Rightarrow> Some f
           | None \<Rightarrow>
               (case decimal_val body of
                  None \<Rightarrow> None
                | Some v \<Rightarrow> Some (to_float (if neg then - v else v)))))"

section \<open>The converter\<close>

text \<open>
  \<open>parse_excalidraw_to_manim\<close> is one function in four steps: read the canvas size from
  the configuration, load the shapes, aggregate them into frames, and write one scene per
  frame. Each step is a definition below, in the order of the source. Reading the two
  files is not part of it: the development starts from the loaded configuration and the
  loaded document, whose elements are dictionaries. The informational \<open>print\<close> calls
  are left out, except that an exception raised while evaluating their arguments is kept.
\<close>

subsection \<open>Step 1: the canvas size\<close>

text \<open>
  What \<open>config["CLI"].get(key, default)\<close> finds for a key that the section has: the
  value after interpolation (a value without \<open>%\<close> is returned as it is), or the
  exception that interpolation raises (for a value with a \<open>%\<close> that starts no
  reference, say), which is one of the subclasses of \<open>InterpolationError\<close>.
\<close>

datatype option_value = Value string | BadInterpolation

text \<open>
  The configuration as the converter sees it: \<open>None\<close> when there is no section \<open>CLI\<close>
  (or no configuration file), otherwise the options of that section.
\<close>

type_synonym config = "(string \<rightharpoonup> option_value) option"

text \<open>\<open>float(config["CLI"].get(key, default))\<close>, the default being a number already.\<close>

definition read_dimension ::
  "(string \<rightharpoonup> option_value) \<Rightarrow> string \<Rightarrow> pyfloat \<Rightarrow> error + pyfloat" where
  "read_dimension cli key dflt =
     (case cli key of
        None \<Rightarrow> Inr dflt
      | Some BadInterpolation \<Rightarrow> Inl InterpolationError
      | Some (Value v) \<Rightarrow> (case py_float v of None \<Rightarrow> Inl ValueError | Some r \<Rightarrow> Inr r))"

definition manim_frame_size :: "config \<Rightarrow> error + pyfloat \<times> pyfloat" where
  "manim_frame_size cfg =
     (case cfg of
        None \<Rightarrow> Inr (Fin 14, Fin 8)
      | Some cli \<Rightarrow>
          (case read_dimension cli ''frame_width'' (Fin 14) of
             Inl e \<Rightarrow> Inl e
           | Inr w \<Rightarrow>
               (case read_dimension cli ''frame_height'' (Fin 8) of
                  Inl e \<Rightarrow> Inl e
                | Inr h \<Rightarrow> Inr (w, h))))"

subsection \<open>Step 2: aggregating shapes into frames\<close>

record object =
  o_type :: json
  o_x :: json
  o_y :: json
  o_width :: json
  o_height :: json
  o_text :: json
  o_fontSize :: json

record frame =
  f_width :: json
  f_height :: json
  f_x :: json
  f_y :: json
  f_name :: json
  f_objects :: "object list"

text \<open>
  The dictionary \<open>frames\<close>, in insertion order; the keys are \<open>dict_key\<close> values and
  occur once each.
\<close>

type_synonym frames = "(json \<times> frame) list"

text \<open>
  \<open>next(shape for shape in shapes if shape.get("id") == frame_id)\<close>: the first match;
  an exhausted generator raises \<open>StopIteration\<close>, which carries no value.
\<close>

definition find_frame :: "json \<Rightarrow> shape list \<Rightarrow> error + shape" where
  "find_frame frame_id shapes =
     (case find (\<lambda>shape. py_eq (shape_get shape ''id'') frame_id) shapes of
        None \<Rightarrow> Inl StopIteration
      | Some shape \<Rightarrow> Inr shape)"

definition new_frame :: "shape \<Rightarrow> frame" where
  "new_frame fr =
     \<lparr> f_width = shape_get fr ''width'',
       f_height = shape_get fr ''height'',
       f_x = shape_get fr ''x'',
       f_y = shape_get fr ''y'',
       f_name = shape_get fr ''name'',
       f_objects = [] \<rparr>"

definition new_object :: "shape \<Rightarrow> object" where
  "new_object shape =
     \<lparr> o_type = shape_get shape ''type'',
       o_x = shape_get shape ''x'',
       o_y = shape_get shape ''y'',
       o_width = shape_get_default shape ''width'' (JNum 0),
       o_height = shape_get_default shape ''height'' (JNum 0),
       o_text = shape_get_default shape ''text'' (JStr []),
       o_fontSize = shape_get_default shape ''fontSize'' (JNum 0) \<rparr>"

text \<open>\<open>frames[key]["objects"].append(obj)\<close>.\<close>

fun append_object :: "json \<Rightarrow> object \<Rightarrow> frames \<Rightarrow> frames" where
  "append_object key obj [] = []"
| "append_object key obj ((k, f) # rest) =
     (if k = key then (k, f\<lparr>f_objects := f_objects f @ [obj]\<rparr>) # rest
      else (k, f) # append_object key obj rest)"

text \<open>
  The body of the aggregation loop for one shape. Testing \<open>frame_id not in frames\<close>
  hashes the identifier, which raises \<open>TypeError\<close> for a list or a dictionary.
\<close>

definition add_shape :: "shape list \<Rightarrow> frames \<Rightarrow> shape \<Rightarrow> error + frames" where
  "add_shape shapes frames shape =
     (let frame_id = shape_get shape ''frameId'' in
      if frame_id = JNull then Inr frames
      else
        (case dict_key frame_id of
           None \<Rightarrow> Inl TypeError
         | Some key \<Rightarrow>
             (if key \<in> fst ` set frames
              then Inr (append_object key (new_object shape) frames)
              else
                (case find_frame frame_id shapes of
                   Inl e \<Rightarrow> Inl e
                 | Inr fr \<Rightarrow>
                     Inr (append_object key (new_object shape)
                            (frames @ [(key, new_frame fr)]))))))"

fun aggregate_from :: "shape list \<Rightarrow> frames \<Rightarrow> shape list \<Rightarrow> error + frames" where
  "aggregate_from shapes frames [] = Inr frames"
| "aggregate_from shapes frames (shape # rest) =
     (case add_shape shapes frames shape of
        Inl e \<Rightarrow> Inl e
      | Inr frames' \<Rightarrow> aggregate_from shapes frames' rest)"

definition aggregate :: "shape list \<Rightarrow> error + frames" where
  "aggregate shapes = aggregate_from shapes [] shapes"

subsection \<open>Step 3: scaling and writing\<close>

text \<open>
  \<open>scale_x\<close>, \<open>scale_y\<close> and their minimum. The canvas size is a float; the frame's
  width and height are whatever the document holds. The quotients are exact here: the
  quotient of the program is this value rounded to a float, which is \<open>0.0\<close> for a
  quotient below the smallest positive float.
\<close>

definition frame_scale :: "pyfloat \<Rightarrow> pyfloat \<Rightarrow> frame \<Rightarrow> error + pyfloat" where
  "frame_scale manim_frame_width manim_frame_height fr =
     (case num_of (f_width fr) of
        None \<Rightarrow> Inl TypeError
      | Some frame_width \<Rightarrow>
          if frame_width = 0 then Inl ZeroDivisionError
          else
            (case num_of (f_height fr) of
               None \<Rightarrow> Inl TypeError
             | Some frame_height \<Rightarrow>
                 if frame_height = 0 then Inl ZeroDivisionError
                 else Inr (fmin (fdiv manim_frame_width frame_width)
                                (fdiv manim_frame_height frame_height))))"

text \<open>
  \<open>Frame{''.join(x for x in frame_name.title() if not x.isspace())}Scene\<close>; a name that
  is not a string has no \<open>title\<close>.
\<close>

definition scene_name :: "json \<Rightarrow> error + string" where
  "scene_name frame_name =
     (case frame_name of
        JStr s \<Rightarrow> Inr (''Frame'' @ filter (\<lambda>x. \<not> isspace x) (title s) @ ''Scene'')
      | _ \<Rightarrow> Inl AttributeError)"

text \<open>
  The position and size of an object on the canvas (\<open>obj_x\<close>, \<open>obj_y\<close>, \<open>obj_width\<close>,
  \<open>obj_height\<close> of the source). Every operand must be a number.
\<close>

definition obj_x :: "frame \<Rightarrow> pyfloat \<Rightarrow> object \<Rightarrow> error + pyfloat" where
  "obj_x fr scale obj =
     (case (num_of (o_x obj), num_of (f_x fr), num_of (f_width fr), num_of (o_width obj)) of
        (Some x, Some frame_x, Some frame_width, Some w) \<Rightarrow>
          Inr (fmul (x - frame_x - frame_width / 2 + w / 2) scale)
      | _ \<Rightarrow> Inl TypeError)"

definition obj_y :: "frame \<Rightarrow> pyfloat \<Rightarrow> object \<Rightarrow> error + pyfloat" where
  "obj_y fr scale obj =
     (case (num_of (o_y obj), num_of (f_y fr), num_of (f_height fr), num_of (o_height obj)) of
        (Some y, Some frame_y, Some frame_height, Some h) \<Rightarrow>
          Inr (fmul (- (y - frame_y - frame_height / 2 + h / 2)) scale)
      | _ \<Rightarrow> Inl TypeError)"

definition obj_width :: "pyfloat \<Rightarrow> object \<Rightarrow> error + pyfloat" where
  "obj_width scale obj =
     (case num_of (o_width obj) of Some w \<Rightarrow> Inr (fmul w scale) | None \<Rightarrow> Inl TypeError)"

definition obj_height :: "pyfloat \<Rightarrow> object \<Rightarrow> error + pyfloat" where
  "obj_height scale obj =
     (case num_of (o_height obj) of Some h \<Rightarrow> Inr (fmul h scale) | None \<Rightarrow> Inl TypeError)"

record placement =
  canvas_x :: pyfloat
  canvas_y :: pyfloat
  canvas_width :: pyfloat
  canvas_height :: pyfloat

definition transform :: "frame \<Rightarrow> pyfloat \<Rightarrow> object \<Rightarrow> error + placement" where
  "transform fr scale obj =
     (case (obj_x fr scale obj, obj_y fr scale obj, obj_width scale obj, obj_height scale obj) of
        (Inr x, Inr y, Inr w, Inr h) \<Rightarrow>
          Inr \<lparr> canvas_x = x, canvas_y = y, canvas_width = w, canvas_height = h \<rparr>
      | _ \<Rightarrow> Inl TypeError)"

text \<open>
  The statements written for one object. The two remaining runtime operations are
  parameters: \<open>fmt\<close> formats a float inside an f-string and \<open>repr\<close> quotes a string.
\<close>

definition move_to :: "(pyfloat \<Rightarrow> string) \<Rightarrow> placement \<Rightarrow> string" where
  "move_to fmt p =
     ''.move_to(['' @ fmt (canvas_x p) @ '', '' @ fmt (canvas_y p) @ '', 0]))'' @ [nl]"

definition sized :: "(pyfloat \<Rightarrow> string) \<Rightarrow> string \<Rightarrow> placement \<Rightarrow> string" where
  "sized fmt prim p =
     ''        self.add('' @ prim @ ''(width='' @ fmt (canvas_width p)
       @ '', height='' @ fmt (canvas_height p) @ '')'' @ move_to fmt p"

definition text_item ::
  "(pyfloat \<Rightarrow> string) \<Rightarrow> (string \<Rightarrow> string) \<Rightarrow> rat \<Rightarrow> string \<Rightarrow> string" where
  "text_item fmt repr font_size line =
     ''Text('' @ repr line @ '', should_center=False, font_size='' @ fmt (Fin font_size) @ '')''"

definition text_statement ::
  "(pyfloat \<Rightarrow> string) \<Rightarrow> (string \<Rightarrow> string) \<Rightarrow> object \<Rightarrow> placement \<Rightarrow> error + string" where
  "text_statement fmt repr obj p =
     (case o_text obj of
        JStr s \<Rightarrow>
          (let text_lines = split_nl s in
           case num_of (o_fontSize obj) of
             None \<Rightarrow> Inl TypeError
           | Some fs \<Rightarrow>
               (let font_size = fs * (3 / 10) in
                Inr (''        self.add(VGroup(''
                     @ join '', '' (map (text_item fmt repr font_size) text_lines)
                     @ '').arrange(DOWN, buff=0.02, center=False, aligned_edge=LEFT)''
                     @ move_to fmt p)))
      | _ \<Rightarrow> Inl AttributeError)"

definition emit_object ::
  "(pyfloat \<Rightarrow> string) \<Rightarrow> (string \<Rightarrow> string) \<Rightarrow> frame \<Rightarrow> pyfloat \<Rightarrow> object \<Rightarrow> error + string" where
  "emit_object fmt repr fr scale obj =
     (case transform fr scale obj of
        Inl e \<Rightarrow> Inl e
      | Inr p \<Rightarrow>
          if o_type obj = JStr ''rectangle'' then Inr (sized fmt ''Rectangle'' p)
          else if o_type obj = JStr ''ellipse'' then Inr (sized fmt ''Ellipse'' p)
          else if o_type obj = JStr ''text'' then text_statement fmt repr obj p
          else Inr [])"

text \<open>
  Each loop returns what it wrote and the exception that stopped it, if any:
  what was written before an exception stays in the file.
\<close>

fun emit_objects ::
  "(pyfloat \<Rightarrow> string) \<Rightarrow> (string \<Rightarrow> string) \<Rightarrow> frame \<Rightarrow> pyfloat \<Rightarrow> object list
     \<Rightarrow> string \<times> error option" where
  "emit_objects fmt repr fr scale [] = ([], None)"
| "emit_objects fmt repr fr scale (obj # rest) =
     (case emit_object fmt repr fr scale obj of
        Inl e \<Rightarrow> ([], Some e)
      | Inr written \<Rightarrow>
          (case emit_objects fmt repr fr scale rest of
             (later, r) \<Rightarrow> (written @ later, r)))"

definition emit_frame ::
  "(pyfloat \<Rightarrow> string) \<Rightarrow> (string \<Rightarrow> string) \<Rightarrow> pyfloat \<Rightarrow> pyfloat \<Rightarrow> frame \<Rightarrow> string \<times> error option" where
  "emit_frame fmt repr manim_frame_width manim_frame_height fr =
     (case frame_scale manim_frame_width manim_frame_height fr of
        Inl e \<Rightarrow> ([], Some e)
      | Inr scale \<Rightarrow>
          (case scene_name (f_name fr) of
             Inl e \<Rightarrow> ([], Some e)
           | Inr name \<Rightarrow>
               (let head = ''class '' @ name @ ''(Scene):'' @ [nl]
                           @ ''    def construct(self):'' @ [nl]
                in case emit_objects fmt repr fr scale (f_objects fr) of
                     (body, Some e) \<Rightarrow> (head @ body, Some e)
                   | (body, None) \<Rightarrow> (head @ body @ [nl], None))))"

fun emit_frames ::
  "(pyfloat \<Rightarrow> string) \<Rightarrow> (string \<Rightarrow> string) \<Rightarrow> pyfloat \<Rightarrow> pyfloat \<Rightarrow> frame list \<Rightarrow> string \<times> error option" where
  "emit_frames fmt repr cw ch [] = ([], None)"
| "emit_frames fmt repr cw ch (fr # rest) =
     (case emit_frame fmt repr cw ch fr of
        (written, Some e) \<Rightarrow> (written, Some e)
      | (written, None) \<Rightarrow>
          (case emit_frames fmt repr cw ch rest of
             (later, r) \<Rightarrow> (written @ later, r)))"

subsection \<open>The whole run\<close>

text \<open>
  The outcome of a run: the content of the output file (\<open>None\<close> when the file was never
  opened) and the exception that ended the run, if any.
\<close>

record run =
  output_file :: "string option"
  raised :: "error option"

definition header :: string where
  "header = ''from manim import *'' @ [nl, nl]"

text \<open>
  The document is the value of \<open>excalidraw_data.get("elements", [])\<close>: \<open>None\<close> when the
  key is absent.
\<close>

type_synonym document = "shape list option"

definition elements :: "document \<Rightarrow> shape list" where
  "elements doc = (case doc of None \<Rightarrow> [] | Some shapes \<Rightarrow> shapes)"

definition parse_excalidraw_to_manim ::
  "(pyfloat \<Rightarrow> string) \<Rightarrow> (string \<Rightarrow> string) \<Rightarrow> config \<Rightarrow> document \<Rightarrow> run" where
  "parse_excalidraw_to_manim fmt repr cfg doc =
     (case manim_frame_size cfg of
        Inl e \<Rightarrow> \<lparr> output_file = None, raised = Some e \<rparr>
      | Inr (manim_frame_width, manim_frame_height) \<Rightarrow>
          (let shapes = elements doc in
           if shapes = [] then \<lparr> output_file = None, raised = None \<rparr>
           else
             (case aggregate shapes of
                Inl e \<Rightarrow> \<lparr> output_file = None, raised = Some e \<rparr>
              | Inr frames \<Rightarrow>
                  (case emit_frames fmt repr manim_frame_width manim_frame_height
                          (map snd frames) of
                     (written, r) \<Rightarrow> \<lparr> output_file = Some (header @ written), raised = r \<rparr>))))"

section \<open>Notions used in the statements\<close>

text \<open>The three types for which the emitter has a drawing statement.\<close>

definition drawn_type :: "object \<Rightarrow> bool" where
  "drawn_type obj =
     (o_type obj = JStr ''rectangle'' \<or> o_type obj = JStr ''ellipse'' \<or> o_type obj = JStr ''text'')"


text \<open>The scenario of the specification: one frame named "Intro Scene" and one rectangle.\<close>

definition intro_frame :: shape where
  "intro_frame =
     [''id'' \<mapsto> JStr ''frame1'', ''type'' \<mapsto> JStr ''frame'', ''name'' \<mapsto> JStr ''Intro Scene'',
      ''x'' \<mapsto> JNum 0, ''y'' \<mapsto> JNum 0, ''width'' \<mapsto> JNum 1400, ''height'' \<mapsto> JNum 800]"

definition intro_rectangle :: shape where
  "intro_rectangle =
     [''id'' \<mapsto> JStr ''rect1'', ''type'' \<mapsto> JStr ''rectangle'', ''frameId'' \<mapsto> JStr ''frame1'',
      ''x'' \<mapsto> JNum 700, ''y'' \<mapsto> JNum 400, ''width'' \<mapsto> JNum 100, ''height'' \<mapsto> JNum 100]"

text \<open>
  A document with two frames, each with one member: frame \<open>a\<close> of size 10 by 10 holds a
  line, frame \<open>b\<close> of width 0 holds a rectangle.
\<close>

definition zero_width_document :: "shape list" where
  "zero_width_document =
     [ [''id'' \<mapsto> JStr ''a'', ''type'' \<mapsto> JStr ''frame'', ''name'' \<mapsto> JStr ''a'',
       ''x'' \<mapsto> JNum 0, ''y'' \<mapsto> JNum 0, ''width'' \<mapsto> JNum 10, ''height'' \<mapsto> JNum 10],
      [''id'' \<mapsto> JStr ''l'', ''type'' \<mapsto> JStr ''line'', ''frameId'' \<mapsto> JStr ''a'',
       ''x'' \<mapsto> JNum 1, ''y'' \<mapsto> JNum 1, ''width'' \<mapsto> JNum 2, ''height'' \<mapsto> JNum 2],
      [''id'' \<mapsto> JStr ''b'', ''type'' \<mapsto> JStr ''frame'', ''name'' \<mapsto> JStr ''b'',
       ''x'' \<mapsto> JNum 0, ''y'' \<mapsto> JNum 0, ''width'' \<mapsto> JNum 0, ''height'' \<mapsto> JNum 10],
      [''id'' \<mapsto> JStr ''r'', ''type'' \<mapsto> JStr ''rectangle'', ''frameId'' \<mapsto> JStr ''b'',
       ''x'' \<mapsto> JNum 1, ''y'' \<mapsto> JNum 1, ''width'' \<mapsto> JNum 2, ''height'' \<mapsto> JNum 2] ]"

text \<open>
  A document with one frame of height 0 that has no width, and a rectangle in it.
\<close>

definition no_width_document :: "shape list" where
  "no_width_document =
     [ [''id'' \<mapsto> JStr ''a'', ''type'' \<mapsto> JStr ''frame'', ''name'' \<mapsto> JStr ''a'',
       ''x'' \<mapsto> JNum 0, ''y'' \<mapsto> JNum 0, ''height'' \<mapsto> JNum 0],
      [''id'' \<mapsto> JStr ''r'', ''type'' \<mapsto> JStr ''rectangle'', ''frameId'' \<mapsto> JStr ''a'',
       ''x'' \<mapsto> JNum 1, ''y'' \<mapsto> JNum 1, ''width'' \<mapsto> JNum 2, ''height'' \<mapsto> JNum 2] ]"

text \<open>
  A document with one frame of size 10 by 10 and an arrow in it that has no \<open>x\<close>.
\<close>

definition arrow_document :: "shape list" where
  "arrow_document =
     [ [''id'' \<mapsto> JStr ''a'', ''type'' \<mapsto> JStr ''frame'', ''name'' \<mapsto> JStr ''a'',
       ''x'' \<mapsto> JNum 0, ''y'' \<mapsto> JNum 0, ''width'' \<mapsto> JNum 10, ''height'' \<mapsto> JNum 10],
      [''id'' \<mapsto> JStr ''w'', ''type'' \<mapsto> JStr ''arrow'', ''frameId'' \<mapsto> JStr ''a'',
       ''y'' \<mapsto> JNum 1, ''width'' \<mapsto> JNum 2, ''height'' \<mapsto> JNum 2] ]"

text \<open>
  A number of magnitude at most \<open>2 ^ 1000\<close>: the floats of the program hold such a
  number, so that arithmetic on it raises no \<open>OverflowError\<close>.
\<close>

definition float_safe :: "json \<Rightarrow> bool" where
  "float_safe v = (case num_of v of None \<Rightarrow> False | Some r \<Rightarrow> \<bar>r\<bar> \<le> 2 ^ 1000)"

text \<open>
  The coordinates and sizes that the transform of an object reads are all such numbers.
\<close>

definition numeric_geometry :: "frame \<Rightarrow> object \<Rightarrow> bool" where
  "numeric_geometry fr obj =
     (float_safe (o_x obj) \<and> float_safe (o_y obj)
      \<and> float_safe (o_width obj) \<and> float_safe (o_height obj)
      \<and> float_safe (f_x fr) \<and> float_safe (f_y fr)
      \<and> float_safe (f_width fr) \<and> float_safe (f_height fr))"

text \<open>The shape names the frame stored under \<open>key\<close> as its frame.\<close>

definition in_frame :: "json \<Rightarrow> shape \<Rightarrow> bool" where
  "in_frame key shape =
     (shape_get shape ''frameId'' \<noteq> JNull \<and> dict_key (shape_get shape ''frameId'') = Some key)"

text \<open>
  What holds of the dictionary \<open>frames\<close> after the loop has gone through the shapes
  \<open>seen\<close>: the keys are distinct and not \<open>null\<close>; a frame holds the objects of the seen
  shapes that name it, in their order, and the geometry of the first shape whose \<open>id\<close> is
  its key; and every seen shape that names a frame has its frame in the dictionary.
\<close>

definition frames_inv :: "shape list \<Rightarrow> shape list \<Rightarrow> frames \<Rightarrow> bool" where
  "frames_inv shapes seen frames =
     (distinct (map fst frames)
      \<and> (\<forall>(k, f) \<in> set frames.
            k \<noteq> JNull
            \<and> f_objects f = map new_object (filter (in_frame k) seen)
            \<and> (\<exists>fr. find_frame k shapes = Inr fr \<and> f\<lparr>f_objects := []\<rparr> = new_frame fr))
      \<and> (\<forall>t \<in> set seen. \<forall>k. in_frame k t \<longrightarrow> k \<in> fst ` set frames))"

text \<open>A shape that names itself as its frame.\<close>

definition self_frame :: shape where
  "self_frame =
     [''id'' \<mapsto> JStr ''a'', ''frameId'' \<mapsto> JStr ''a'', ''type'' \<mapsto> JStr ''rectangle'',
      ''name'' \<mapsto> JStr ''a'', ''x'' \<mapsto> JNum 0, ''y'' \<mapsto> JNum 0,
      ''width'' \<mapsto> JNum 10, ''height'' \<mapsto> JNum 10]"

section \<open>The scenario of the specification\<close>

lemma intro_ids:
  "shape_get intro_frame ''frameId'' = JNull"
  "shape_get intro_frame ''id'' = JStr ''frame1''"
  "shape_get intro_rectangle ''frameId'' = JStr ''frame1''"
  by (simp_all add: intro_frame_def intro_rectangle_def shape_get_def)

lemma new_frame_intro:
  "new_frame intro_frame =
     \<lparr> f_width = JNum 1400, f_height = JNum 800, f_x = JNum 0, f_y = JNum 0,
       f_name = JStr ''Intro Scene'', f_objects = [] \<rparr>"
  by (simp add: new_frame_def intro_frame_def shape_get_def)

lemma new_object_intro:
  "new_object intro_rectangle =
     \<lparr> o_type = JStr ''rectangle'', o_x = JNum 700, o_y = JNum 400,
       o_width = JNum 100, o_height = JNum 100, o_text = JStr [], o_fontSize = JNum 0 \<rparr>"
  by (simp add: new_object_def intro_rectangle_def shape_get_def shape_get_default_def)

lemma aggregate_intro:
  "aggregate [intro_frame, intro_rectangle] =
     Inr [(JStr ''frame1'',
           \<lparr> f_width = JNum 1400, f_height = JNum 800, f_x = JNum 0, f_y = JNum 0,
             f_name = JStr ''Intro Scene'',
             f_objects = [\<lparr> o_type = JStr ''rectangle'', o_x = JNum 700, o_y = JNum 400,
                            o_width = JNum 100, o_height = JNum 100, o_text = JStr [],
                            o_fontSize = JNum 0 \<rparr>] \<rparr>)]"
  by (simp add: aggregate_def add_shape_def find_frame_def py_eq_def intro_ids
      new_frame_intro new_object_intro)

lemma scene_name_intro: "scene_name (JStr ''Intro Scene'') = Inr ''FrameIntroSceneScene''"
  by code_simp

text \<open>
  C3, as amended. For the frame "Intro Scene" at (0, 0) of size 1400 by 800 with one
  rectangle at (700, 400) of size 100 by 100, and the default canvas of 14 by 8: the scale
  is 1/100, the rectangle is placed at (1/2, -1/2) with size 1 by 1 (its centre (750, 450)
  is 50 to the right of and 50 below the centre of the frame), the scene is named
  \<open>FrameIntroSceneScene\<close>, and the file holds the header, that one scene with its
  rectangle, and the closing blank line.
\<close>

theorem intro_scene_scenario:
  "aggregate [intro_frame, intro_rectangle] =
     Inr [(JStr ''frame1'',
           \<lparr> f_width = JNum 1400, f_height = JNum 800, f_x = JNum 0, f_y = JNum 0,
             f_name = JStr ''Intro Scene'',
             f_objects = [\<lparr> o_type = JStr ''rectangle'', o_x = JNum 700, o_y = JNum 400,
                            o_width = JNum 100, o_height = JNum 100, o_text = JStr [],
                            o_fontSize = JNum 0 \<rparr>] \<rparr>)]
   \<and> frame_scale (Fin 14) (Fin 8)
         \<lparr> f_width = JNum 1400, f_height = JNum 800, f_x = JNum 0, f_y = JNum 0,
           f_name = JStr ''Intro Scene'',
           f_objects = [\<lparr> o_type = JStr ''rectangle'', o_x = JNum 700, o_y = JNum 400,
                          o_width = JNum 100, o_height = JNum 100, o_text = JStr [],
                          o_fontSize = JNum 0 \<rparr>] \<rparr>
       = Inr (Fin (1 / 100))
   \<and> transform
         \<lparr> f_width = JNum 1400, f_height = JNum 800, f_x = JNum 0, f_y = JNum 0,
           f_name = JStr ''Intro Scene'',
           f_objects = [\<lparr> o_type = JStr ''rectangle'', o_x = JNum 700, o_y = JNum 400,
                          o_width = JNum 100, o_height = JNum 100, o_text = JStr [],
                          o_fontSize = JNum 0 \<rparr>] \<rparr>
         (Fin (1 / 100))
         \<lparr> o_type = JStr ''rectangle'', o_x = JNum 700, o_y = JNum 400,
           o_width = JNum 100, o_height = JNum 100, o_text = JStr [], o_fontSize = JNum 0 \<rparr>
       = Inr \<lparr> canvas_x = Fin (1 / 2), canvas_y = Fin (- (1 / 2)),
               canvas_width = Fin 1, canvas_height = Fin 1 \<rparr>
   \<and> scene_name (JStr ''Intro Scene'') = Inr ''FrameIntroSceneScene''
   \<and> parse_excalidraw_to_manim fmt repr None (Some [intro_frame, intro_rectangle]) =
       \<lparr> output_file =
           Some (header
                 @ ''class FrameIntroSceneScene(Scene):'' @ [nl]
                 @ ''    def construct(self):'' @ [nl]
                 @ sized fmt ''Rectangle''
                     \<lparr> canvas_x = Fin (1 / 2), canvas_y = Fin (- (1 / 2)),
                       canvas_width = Fin 1, canvas_height = Fin 1 \<rparr>
                 @ [nl]),
         raised = None \<rparr>"
  (is "aggregate _ = Inr [(_, ?fr)] \<and> _ \<and> transform _ _ ?rect = Inr ?p \<and> _ \<and> ?run")
proof -
  have sc: "frame_scale (Fin 14) (Fin 8) ?fr = Inr (Fin (1 / 100))"
    by (simp add: frame_scale_def fmin_def)
  have tr: "transform ?fr (Fin (1 / 100)) ?rect = Inr ?p"
    by (simp add: transform_def obj_x_def obj_y_def obj_width_def obj_height_def)
  have ob: "emit_object fmt repr ?fr (Fin (1 / 100)) ?rect = Inr (sized fmt ''Rectangle'' ?p)"
    by (simp add: emit_object_def tr)
  have fr: "emit_frame fmt repr (Fin 14) (Fin 8) ?fr =
              (''class FrameIntroSceneScene(Scene):'' @ [nl]
               @ ''    def construct(self):'' @ [nl]
               @ sized fmt ''Rectangle'' ?p @ [nl], None)"
    by (simp add: emit_frame_def sc scene_name_intro ob)
  have run: ?run
    by (simp add: parse_excalidraw_to_manim_def manim_frame_size_def elements_def
        aggregate_intro fr)
  from aggregate_intro sc tr scene_name_intro run show ?thesis by blast
qed

text \<open>
  C3, as stated, fails: the rectangle of the scenario is not placed at the origin of the
  canvas.
\<close>

theorem intro_scene_origin_counterexample:
  "transform
     \<lparr> f_width = JNum 1400, f_height = JNum 800, f_x = JNum 0, f_y = JNum 0,
       f_name = JStr ''Intro Scene'',
       f_objects = [\<lparr> o_type = JStr ''rectangle'', o_x = JNum 700, o_y = JNum 400,
                      o_width = JNum 100, o_height = JNum 100, o_text = JStr [],
                      o_fontSize = JNum 0 \<rparr>] \<rparr>
     (Fin (1 / 100))
     \<lparr> o_type = JStr ''rectangle'', o_x = JNum 700, o_y = JNum 400,
       o_width = JNum 100, o_height = JNum 100, o_text = JStr [], o_fontSize = JNum 0 \<rparr>
   \<noteq> Inr \<lparr> canvas_x = Fin 0, canvas_y = Fin 0, canvas_width = Fin 1, canvas_height = Fin 1 \<rparr>"
  by (simp add: transform_def obj_x_def obj_y_def obj_width_def obj_height_def)

section \<open>The geometric transform\<close>



lemma py_float_zero: "py_float ''0'' = Some (Fin 0)"
proof -
  have "unsigned_part (strip ''0'') = (False, ''0'')" "special_val False ''0'' = None"
    "decimal_val ''0'' = Some 0"
    by code_simp+
  then show ?thesis
    by (simp add: py_float_def to_float_def)
qed

text \<open>
  C2, as amended. For a frame of width \<open>W\<close> and height \<open>H\<close>, both numbers other than
  zero and of magnitude at most \<open>2 ^ 1000\<close>, and a canvas of \<open>Cw\<close> by \<open>Ch\<close>, the scale
  is \<open>min(Cw / W, Ch / H)\<close>, which for numbers \<open>Cw\<close> and \<open>Ch\<close> is the number
  \<open>min (Cw / W) (Ch / H)\<close>. It is positive when \<open>W\<close>, \<open>H\<close>, \<open>Cw\<close> and \<open>Ch\<close> are positive
  and neither quotient is below \<open>1 / 2 ^ 1074\<close>, the smallest positive float: a smaller
  quotient is positive as a rational, but the program's float for it can be \<open>0.0\<close>.
\<close>

theorem frame_scale_min:
  assumes "num_of (f_width fr) = Some W" and "num_of (f_height fr) = Some H"
    and "W \<noteq> 0" and "H \<noteq> 0"
    and "\<bar>W\<bar> \<le> 2 ^ 1000" and "\<bar>H\<bar> \<le> 2 ^ 1000"
  shows "frame_scale canvas_w canvas_h fr = Inr (fmin (fdiv canvas_w W) (fdiv canvas_h H))
       \<and> frame_scale (Fin cw) (Fin ch) fr = Inr (Fin (min (cw / W) (ch / H)))
       \<and> (0 < W \<and> 0 < H \<and> 0 < cw \<and> 0 < ch
            \<and> 1 / 2 ^ 1074 \<le> cw / W \<and> 1 / 2 ^ 1074 \<le> ch / H
          \<longrightarrow> 0 < min (cw / W) (ch / H))"
  using assms by (simp add: frame_scale_def fmin_def min_def)

theorem frame_scale_min_witness:
  "frame_scale PInf (Fin 8)
     \<lparr> f_width = JNum 1400, f_height = JNum 400, f_x = JNum 0, f_y = JNum 0,
       f_name = JStr ''A'', f_objects = [] \<rparr> = Inr (Fin (1 / 50))
   \<and> frame_scale (Fin 14) (Fin 8)
       \<lparr> f_width = JNum 1400, f_height = JNum 400, f_x = JNum 0, f_y = JNum 0,
         f_name = JStr ''A'', f_objects = [] \<rparr> = Inr (Fin (1 / 100))
   \<and> (0 :: rat) < min (14 / 1400) (8 / 400)"
  using frame_scale_min
    [of "\<lparr> f_width = JNum 1400, f_height = JNum 400, f_x = JNum 0, f_y = JNum 0,
            f_name = JStr ''A'', f_objects = [] \<rparr>" 1400 400 PInf "Fin 8" 14 8]
  by (simp add: fmin_def)

text \<open>
  C2, as stated, fails: a configuration may set the canvas width to 0, and then a frame
  of positive width and height has scale 0.
\<close>

theorem frame_scale_positive_counterexample:
  "manim_frame_size (Some [''frame_width'' \<mapsto> Value ''0'']) = Inr (Fin 0, Fin 8)
   \<and> frame_scale (Fin 0) (Fin 8)
       \<lparr> f_width = JNum 1400, f_height = JNum 800, f_x = JNum 0, f_y = JNum 0,
         f_name = JStr ''A'', f_objects = [] \<rparr> = Inr (Fin 0)"
  by (simp add: manim_frame_size_def read_dimension_def frame_scale_def fmin_def py_float_zero)

section \<open>The canvas size\<close>

lemma read_dimension_absent: "cli key = None \<Longrightarrow> read_dimension cli key d = Inr d"
  by (simp add: read_dimension_def)

lemma read_dimension_malformed:
  "cli key = Some (Value v) \<Longrightarrow> py_float v = None \<Longrightarrow>
   read_dimension cli key d = Inl ValueError"
  by (simp add: read_dimension_def)

lemma read_dimension_interpolation:
  "cli key = Some BadInterpolation \<Longrightarrow> read_dimension cli key d = Inl InterpolationError"
  by (simp add: read_dimension_def)

lemma canvas_error_ends_run:
  "manim_frame_size cfg = Inl e \<Longrightarrow>
   parse_excalidraw_to_manim fmt repr cfg doc = \<lparr> output_file = None, raised = Some e \<rparr>"
  by (simp add: parse_excalidraw_to_manim_def)

lemma to_float_exact:
  assumes "r = 0 \<or> 1 / 2 ^ 1000 \<le> \<bar>r\<bar> \<and> \<bar>r\<bar> \<le> 2 ^ 1000"
  shows "to_float r = Fin r"
proof -
  have big: "(2::rat) ^ 1000 < 2 ^ 1024 - 2 ^ 970" by simp
  have small: "(1::rat) / 2 ^ 1075 < 1 / 2 ^ 1000" by simp
  from assms big small show ?thesis
    by (auto simp add: to_float_def simp del: power_strict_increasing_iff)
qed

lemma py_float_examples:
  "py_float ''4.5'' = Some (Fin (9 / 2))"
  "py_float ''1e1'' = Some (Fin 10)"
  "py_float ''inf'' = Some PInf"
  "py_float ''wide'' = None"
proof -
  have "unsigned_part (strip ''4.5'') = (False, ''4.5'')" "special_val False ''4.5'' = None"
    "decimal_val ''4.5'' = Some (9 / 2)"
    by code_simp+
  then show "py_float ''4.5'' = Some (Fin (9 / 2))"
    by (simp add: py_float_def to_float_exact)
  have "unsigned_part (strip ''1e1'') = (False, ''1e1'')" "special_val False ''1e1'' = None"
    "decimal_val ''1e1'' = Some 10"
    by code_simp+
  then show "py_float ''1e1'' = Some (Fin 10)"
    by (simp add: py_float_def to_float_exact)
  show "py_float ''inf'' = Some PInf"
    by code_simp
  show "py_float ''wide'' = None"
    by code_simp
qed

text \<open>
  C7, as amended. Without a section \<open>CLI\<close> the canvas is 14 by 8, and within the section
  an absent key takes its default (14 for \<open>frame_width\<close>, 8 for \<open>frame_height\<close>) while
  the other key is read. A present value that cannot be read is fatal: \<open>float\<close> raises
  \<open>ValueError\<close> for a value that is no float (\<open>inf\<close>, \<open>infinity\<close> and \<open>nan\<close> are floats),
  and the lookup raises an \<open>InterpolationError\<close> for a value whose interpolation fails.
  Either ends the run, and the output file is never opened.
\<close>

theorem canvas_defaults_and_malformed:
  "manim_frame_size None = Inr (Fin 14, Fin 8)
   \<and> (cli ''frame_width'' = None \<and> cli ''frame_height'' = None
        \<longrightarrow> manim_frame_size (Some cli) = Inr (Fin 14, Fin 8))
   \<and> (cli ''frame_width'' = None \<and> read_dimension cli ''frame_height'' (Fin 8) = Inr h
        \<longrightarrow> manim_frame_size (Some cli) = Inr (Fin 14, h))
   \<and> (read_dimension cli ''frame_width'' (Fin 14) = Inr w \<and> cli ''frame_height'' = None
        \<longrightarrow> manim_frame_size (Some cli) = Inr (w, Fin 8))
   \<and> ((cli ''frame_width'' = Some (Value v)
         \<or> read_dimension cli ''frame_width'' (Fin 14) = Inr w
           \<and> cli ''frame_height'' = Some (Value v))
        \<and> py_float v = None
        \<longrightarrow> parse_excalidraw_to_manim fmt repr (Some cli) doc =
              \<lparr> output_file = None, raised = Some ValueError \<rparr>)
   \<and> (cli ''frame_width'' = Some BadInterpolation
        \<or> read_dimension cli ''frame_width'' (Fin 14) = Inr w
          \<and> cli ''frame_height'' = Some BadInterpolation
        \<longrightarrow> parse_excalidraw_to_manim fmt repr (Some cli) doc =
              \<lparr> output_file = None, raised = Some InterpolationError \<rparr>)"
proof -
  have bad: "manim_frame_size (Some cli) = Inl ValueError"
    if "cli ''frame_width'' = Some (Value v)
        \<or> read_dimension cli ''frame_width'' (Fin 14) = Inr w
          \<and> cli ''frame_height'' = Some (Value v)"
      and "py_float v = None"
    using that
    by (auto simp add: manim_frame_size_def read_dimension_malformed)
  have interp: "manim_frame_size (Some cli) = Inl InterpolationError"
    if "cli ''frame_width'' = Some BadInterpolation
        \<or> read_dimension cli ''frame_width'' (Fin 14) = Inr w
          \<and> cli ''frame_height'' = Some BadInterpolation"
    using that
    by (auto simp add: manim_frame_size_def read_dimension_interpolation)
  show ?thesis
    using canvas_error_ends_run [OF bad, of fmt repr doc]
      canvas_error_ends_run [OF interp, of fmt repr doc]
    by (auto simp add: manim_frame_size_def read_dimension_absent)
qed

theorem canvas_defaults_and_malformed_witness:
  "manim_frame_size (Some Map.empty) = Inr (Fin 14, Fin 8)
   \<and> manim_frame_size (Some [''frame_height'' \<mapsto> Value ''4.5'']) = Inr (Fin 14, Fin (9 / 2))
   \<and> manim_frame_size (Some [''frame_width'' \<mapsto> Value ''inf'']) = Inr (PInf, Fin 8)
   \<and> parse_excalidraw_to_manim (\<lambda>r. []) (\<lambda>s. s) (Some [''frame_width'' \<mapsto> Value ''wide'']) None =
       \<lparr> output_file = None, raised = Some ValueError \<rparr>
   \<and> parse_excalidraw_to_manim (\<lambda>r. []) (\<lambda>s. s)
         (Some [''frame_width'' \<mapsto> Value ''1e1'', ''frame_height'' \<mapsto> BadInterpolation]) None =
       \<lparr> output_file = None, raised = Some InterpolationError \<rparr>"
  using canvas_defaults_and_malformed
      [of Map.empty "Fin 8" "Fin 14" "''x''" "\<lambda>r. []" "\<lambda>s. s" None]
    canvas_defaults_and_malformed
      [of "[''frame_height'' \<mapsto> Value ''4.5'']" "Fin (9 / 2)" "Fin 14" "''4.5''"
          "\<lambda>r. []" "\<lambda>s. s" None]
    canvas_defaults_and_malformed
      [of "[''frame_width'' \<mapsto> Value ''inf'']" "Fin 8" PInf "''inf''"
          "\<lambda>r. []" "\<lambda>s. s" None]
    canvas_defaults_and_malformed
      [of "[''frame_width'' \<mapsto> Value ''wide'']" "Fin 8" "Fin 14" "''wide''"
          "\<lambda>r. []" "\<lambda>s. s" None]
    canvas_defaults_and_malformed
      [of "[''frame_width'' \<mapsto> Value ''1e1'', ''frame_height'' \<mapsto> BadInterpolation]"
          "Fin 8" "Fin 10" "''1e1''" "\<lambda>r. []" "\<lambda>s. s" None]
  by (simp add: read_dimension_def py_float_examples)

text \<open>
  C7, as stated, fails: a value that is not a number does not fall back to the default.
\<close>

theorem malformed_config_counterexample:
  "manim_frame_size (Some [''frame_width'' \<mapsto> Value ''wide'']) = Inl ValueError"
  by (simp add: manim_frame_size_def read_dimension_def py_float_examples)

section \<open>Writing the scenes\<close>

lemma emit_objects_append:
  "emit_objects fmt repr fr scale (xs @ ys) =
     (case emit_objects fmt repr fr scale xs of
        (w, Some e) \<Rightarrow> (w, Some e)
      | (w, None) \<Rightarrow>
          (case emit_objects fmt repr fr scale ys of (later, r) \<Rightarrow> (w @ later, r)))"
  by (induction xs) (auto split: sum.splits prod.splits option.splits)

lemma emit_frames_append:
  "emit_frames fmt repr cw ch (xs @ ys) =
     (case emit_frames fmt repr cw ch xs of
        (w, Some e) \<Rightarrow> (w, Some e)
      | (w, None) \<Rightarrow>
          (case emit_frames fmt repr cw ch ys of (later, r) \<Rightarrow> (w @ later, r)))"
  by (induction xs) (auto split: sum.splits prod.splits option.splits)

lemma frame_scale_zero:
  assumes "num_of (f_width fr) = Some W"
    and "W = 0 \<or> (\<bar>W\<bar> \<le> 2 ^ 1000 \<and> num_of (f_height fr) = Some 0)"
  shows "frame_scale cw ch fr = Inl ZeroDivisionError"
  using assms by (auto simp add: frame_scale_def)

text \<open>
  C6, as amended. A frame whose width is zero, or whose height is zero while its width
  is a number other than zero (of magnitude at most \<open>2 ^ 1000\<close>), raises
  \<open>ZeroDivisionError\<close> before anything is written for it. The exception ends the run:
  the file then holds the header and the scenes of the frames before it, and nothing of
  this frame or of the frames after it.
\<close>

theorem zero_frame_raises:
  assumes "manim_frame_size cfg = Inr (cw, ch)"
    and "elements doc \<noteq> []"
    and "aggregate (elements doc) = Inr frames"
    and "map snd frames = before @ fr # after"
    and "emit_frames fmt repr cw ch before = (written, None)"
    and "num_of (f_width fr) = Some W"
    and "W = 0 \<or> (\<bar>W\<bar> \<le> 2 ^ 1000 \<and> num_of (f_height fr) = Some 0)"
  shows "emit_frame fmt repr cw ch fr = ([], Some ZeroDivisionError)
       \<and> parse_excalidraw_to_manim fmt repr cfg doc =
           \<lparr> output_file = Some (header @ written), raised = Some ZeroDivisionError \<rparr>"
proof -
  have one: "emit_frame fmt repr cw ch fr = ([], Some ZeroDivisionError)"
    using frame_scale_zero [OF assms(6,7)] by (simp add: emit_frame_def)
  then have "emit_frames fmt repr cw ch (before @ fr # after) = (written, Some ZeroDivisionError)"
    using assms(5) by (simp add: emit_frames_append)
  with assms(1-4) one show ?thesis
    by (simp add: parse_excalidraw_to_manim_def)
qed

lemma aggregate_zero_width_document:
  "aggregate zero_width_document =
     Inr [(JStr ''a'',
           \<lparr> f_width = JNum 10, f_height = JNum 10, f_x = JNum 0, f_y = JNum 0,
             f_name = JStr ''a'',
             f_objects = [\<lparr> o_type = JStr ''line'', o_x = JNum 1, o_y = JNum 1,
                            o_width = JNum 2, o_height = JNum 2, o_text = JStr [],
                            o_fontSize = JNum 0 \<rparr>] \<rparr>),
          (JStr ''b'',
           \<lparr> f_width = JNum 0, f_height = JNum 10, f_x = JNum 0, f_y = JNum 0,
             f_name = JStr ''b'',
             f_objects = [\<lparr> o_type = JStr ''rectangle'', o_x = JNum 1, o_y = JNum 1,
                            o_width = JNum 2, o_height = JNum 2, o_text = JStr [],
                            o_fontSize = JNum 0 \<rparr>] \<rparr>)]"
  by code_simp

lemma emit_frame_a:
  "emit_frame (\<lambda>r. []) (\<lambda>s. s) (Fin 14) (Fin 8)
     \<lparr> f_width = JNum 10, f_height = JNum 10, f_x = JNum 0, f_y = JNum 0,
       f_name = JStr ''a'',
       f_objects = [\<lparr> o_type = JStr ''line'', o_x = JNum 1, o_y = JNum 1,
                      o_width = JNum 2, o_height = JNum 2, o_text = JStr [],
                      o_fontSize = JNum 0 \<rparr>] \<rparr>
   = (''class FrameAScene(Scene):'' @ [nl] @ ''    def construct(self):'' @ [nl] @ [nl], None)"
  by code_simp

theorem zero_frame_raises_witness:
  "parse_excalidraw_to_manim (\<lambda>r. []) (\<lambda>s. s) None (Some zero_width_document) =
     \<lparr> output_file =
         Some (header @ ''class FrameAScene(Scene):'' @ [nl]
               @ ''    def construct(self):'' @ [nl] @ [nl]),
       raised = Some ZeroDivisionError \<rparr>"
proof -
  have ne: "elements (Some zero_width_document) \<noteq> []"
    by (simp add: elements_def zero_width_document_def)
  show ?thesis
    using zero_frame_raises
      [of None "Fin 14" "Fin 8" "Some zero_width_document" _
          "[\<lparr> f_width = JNum 10, f_height = JNum 10, f_x = JNum 0, f_y = JNum 0,
               f_name = JStr ''a'',
               f_objects = [\<lparr> o_type = JStr ''line'', o_x = JNum 1, o_y = JNum 1,
                              o_width = JNum 2, o_height = JNum 2, o_text = JStr [],
                              o_fontSize = JNum 0 \<rparr>] \<rparr>]"
          "\<lparr> f_width = JNum 0, f_height = JNum 10, f_x = JNum 0, f_y = JNum 0,
             f_name = JStr ''b'',
             f_objects = [\<lparr> o_type = JStr ''rectangle'', o_x = JNum 1, o_y = JNum 1,
                            o_width = JNum 2, o_height = JNum 2, o_text = JStr [],
                            o_fontSize = JNum 0 \<rparr>] \<rparr>"
          "[]" "\<lambda>r. []" "\<lambda>s. s"
          "''class FrameAScene(Scene):'' @ [nl] @ ''    def construct(self):'' @ [nl] @ [nl]"
          0]
      ne aggregate_zero_width_document emit_frame_a
    by (simp add: manim_frame_size_def elements_def)
qed

text \<open>
  C6, as stated, fails: for a frame of height 0 that has no width, the division by the
  width raises \<open>TypeError\<close> before the height is looked at.
\<close>

theorem zero_height_counterexample:
  "aggregate no_width_document =
     Inr [(JStr ''a'',
           \<lparr> f_width = JNull, f_height = JNum 0, f_x = JNum 0, f_y = JNum 0,
             f_name = JStr ''a'',
             f_objects = [\<lparr> o_type = JStr ''rectangle'', o_x = JNum 1, o_y = JNum 1,
                            o_width = JNum 2, o_height = JNum 2, o_text = JStr [],
                            o_fontSize = JNum 0 \<rparr>] \<rparr>)]
   \<and> parse_excalidraw_to_manim (\<lambda>r. []) (\<lambda>s. s) None (Some no_width_document) =
       \<lparr> output_file = Some header, raised = Some TypeError \<rparr>"
proof -
  have agg: "aggregate no_width_document =
     Inr [(JStr ''a'',
           \<lparr> f_width = JNull, f_height = JNum 0, f_x = JNum 0, f_y = JNum 0,
             f_name = JStr ''a'',
             f_objects = [\<lparr> o_type = JStr ''rectangle'', o_x = JNum 1, o_y = JNum 1,
                            o_width = JNum 2, o_height = JNum 2, o_text = JStr [],
                            o_fontSize = JNum 0 \<rparr>] \<rparr>)]"
    by code_simp
  have ne: "no_width_document \<noteq> []"
    by (simp add: no_width_document_def)
  from agg ne show ?thesis
    by (simp add: parse_excalidraw_to_manim_def manim_frame_size_def elements_def
        emit_frame_def frame_scale_def)
qed

lemma aggregate_from_no_frame_id:
  "\<forall>s \<in> set rest. shape_get s ''frameId'' = JNull \<Longrightarrow>
   aggregate_from shapes frames rest = Inr frames"
  by (induction rest) (simp_all add: add_shape_def)

text \<open>
  C10. When the document has shapes and none of them has a \<open>frameId\<close>, the run succeeds
  and the file holds exactly the header line and the blank line after it. When the
  document has no shapes, the run succeeds and the file is never opened.
\<close>

theorem no_frame_id_header_only:
  assumes "manim_frame_size cfg = Inr (cw, ch)"
  shows "(elements doc \<noteq> [] \<and> (\<forall>s \<in> set (elements doc). shape_get s ''frameId'' = JNull)
          \<longrightarrow> parse_excalidraw_to_manim fmt repr cfg doc =
                \<lparr> output_file = Some (''from manim import *'' @ [nl, nl]), raised = None \<rparr>)
       \<and> (elements doc = []
          \<longrightarrow> parse_excalidraw_to_manim fmt repr cfg doc =
                \<lparr> output_file = None, raised = None \<rparr>)"
  using assms
  by (simp add: parse_excalidraw_to_manim_def aggregate_def aggregate_from_no_frame_id header_def)

theorem no_frame_id_header_only_witness:
  "parse_excalidraw_to_manim (\<lambda>r. []) (\<lambda>s. s) None
     (Some [ [''id'' \<mapsto> JStr ''r'', ''type'' \<mapsto> JStr ''rectangle''],
            [''id'' \<mapsto> JStr ''e'', ''type'' \<mapsto> JStr ''ellipse'', ''frameId'' \<mapsto> JNull] ])
     = \<lparr> output_file = Some (''from manim import *'' @ [nl, nl]), raised = None \<rparr>
   \<and> parse_excalidraw_to_manim (\<lambda>r. []) (\<lambda>s. s) None (Some []) =
       \<lparr> output_file = None, raised = None \<rparr>"
  using no_frame_id_header_only
 [of None "Fin 14" "Fin 8"
          "Some [ [''id'' \<mapsto> JStr ''r'', ''type'' \<mapsto> JStr ''rectangle''],
                 [''id'' \<mapsto> JStr ''e'', ''type'' \<mapsto> JStr ''ellipse'', ''frameId'' \<mapsto> JNull] ]"
          "\<lambda>r. []" "\<lambda>s. s"]
    no_frame_id_header_only [of None "Fin 14" "Fin 8" "Some []" "\<lambda>r. []" "\<lambda>s. s"]
  by (simp add: manim_frame_size_def elements_def shape_get_def)

section \<open>Objects of other types\<close>

lemma float_safe_number: "float_safe v \<Longrightarrow> \<exists>r. num_of v = Some r"
  by (cases "num_of v") (simp_all add: float_safe_def)

lemma transform_numeric:
  assumes "numeric_geometry fr obj"
  shows "\<exists>p. transform fr scale obj = Inr p"
proof -
  from assms obtain x y w h fx fy fw fh where
    "num_of (o_x obj) = Some x" "num_of (o_y obj) = Some y"
    "num_of (o_width obj) = Some w" "num_of (o_height obj) = Some h"
    "num_of (f_x fr) = Some fx" "num_of (f_y fr) = Some fy"
    "num_of (f_width fr) = Some fw" "num_of (f_height fr) = Some fh"
    unfolding numeric_geometry_def by (meson float_safe_number)
  then show ?thesis
    by (simp add: transform_def obj_x_def obj_y_def obj_width_def obj_height_def)
qed

lemma emit_object_other_type:
  "\<not> drawn_type obj \<Longrightarrow> numeric_geometry fr obj \<Longrightarrow> emit_object fmt repr fr scale obj = Inr []"
  using transform_numeric [of fr obj scale]
  by (auto simp add: emit_object_def drawn_type_def)

text \<open>
  C9, as amended. An object whose type is not \<open>rectangle\<close>, \<open>ellipse\<close> or \<open>text\<close>, in a
  frame with numbers for its position and size and with numbers for its own (all of
  magnitude at most \<open>2 ^ 1000\<close>), gets no statement and raises nothing: the loop over the
  objects of a frame writes the same text, and ends the same way, as it does on the
  objects of the three drawn types alone, in their order.
\<close>

theorem other_types_skipped:
  assumes "\<forall>obj \<in> set objs. \<not> drawn_type obj \<longrightarrow> numeric_geometry fr obj"
  shows "(\<forall>obj \<in> set objs. \<not> drawn_type obj \<longrightarrow> emit_object fmt repr fr scale obj = Inr [])
       \<and> emit_objects fmt repr fr scale objs
           = emit_objects fmt repr fr scale (filter drawn_type objs)"
proof
  show "\<forall>obj \<in> set objs. \<not> drawn_type obj \<longrightarrow> emit_object fmt repr fr scale obj = Inr []"
    using assms by (simp add: emit_object_other_type)
  show "emit_objects fmt repr fr scale objs
          = emit_objects fmt repr fr scale (filter drawn_type objs)"
    using assms
  proof (induction objs)
    case Nil
    show ?case by simp
  next
    case (Cons obj objs)
    then have ih: "emit_objects fmt repr fr scale objs
                     = emit_objects fmt repr fr scale (filter drawn_type objs)"
      by simp
    show ?case
    proof (cases "drawn_type obj")
      case True
      with ih show ?thesis by (simp split: sum.splits)
    next
      case False
      with Cons.prems have "emit_object fmt repr fr scale obj = Inr []"
        by (simp add: emit_object_other_type)
      with False ih show ?thesis by (simp split: prod.splits)
    qed
  qed
qed

theorem other_types_skipped_witness:
  "emit_objects (\<lambda>r. ''n'') (\<lambda>s. s)
     \<lparr> f_width = JNum 10, f_height = JNum 10, f_x = JNum 0, f_y = JNum 0,
       f_name = JStr ''a'', f_objects = [] \<rparr>
     (Fin 1)
     [\<lparr> o_type = JStr ''arrow'', o_x = JNum 1, o_y = JNum 1, o_width = JNum 2,
        o_height = JNum 2, o_text = JStr [], o_fontSize = JNum 0 \<rparr>,
      \<lparr> o_type = JStr ''ellipse'', o_x = JNum 1, o_y = JNum 1, o_width = JNum 2,
        o_height = JNum 2, o_text = JStr [], o_fontSize = JNum 0 \<rparr>,
      \<lparr> o_type = JNull, o_x = JNum 1, o_y = JNum 1, o_width = JNum 2,
        o_height = JNum 2, o_text = JStr [], o_fontSize = JNum 0 \<rparr>]
   = (''        self.add(Ellipse(width=n, height=n).move_to([n, n, 0]))'' @ [nl], None)"
proof -
  let ?fr = "\<lparr> f_width = JNum 10, f_height = JNum 10, f_x = JNum 0, f_y = JNum 0,
                f_name = JStr ''a'', f_objects = [] \<rparr>"
  let ?e = "\<lparr> o_type = JStr ''ellipse'', o_x = JNum 1, o_y = JNum 1, o_width = JNum 2,
               o_height = JNum 2, o_text = JStr [], o_fontSize = JNum 0 \<rparr>"
  have "emit_object (\<lambda>r. ''n'') (\<lambda>s. s) ?fr (Fin 1) ?e
          = Inr (''        self.add(Ellipse(width=n, height=n).move_to([n, n, 0]))'' @ [nl])"
    by code_simp
  then show ?thesis
    using other_types_skipped
      [of "[\<lparr> o_type = JStr ''arrow'', o_x = JNum 1, o_y = JNum 1, o_width = JNum 2,
               o_height = JNum 2, o_text = JStr [], o_fontSize = JNum 0 \<rparr>,
             ?e,
             \<lparr> o_type = JNull, o_x = JNum 1, o_y = JNum 1, o_width = JNum 2,
               o_height = JNum 2, o_text = JStr [], o_fontSize = JNum 0 \<rparr>]"
          ?fr "\<lambda>r. ''n''" "\<lambda>s. s" "Fin 1"]
    by (simp add: drawn_type_def numeric_geometry_def float_safe_def)
qed

text \<open>
  C9, as stated, fails: the position of an object is computed before its type is looked
  at, so an arrow that has no \<open>x\<close> raises \<open>TypeError\<close>, after the first two lines of the
  scene of its frame were written.
\<close>

theorem other_type_counterexample:
  "aggregate arrow_document =
     Inr [(JStr ''a'',
           \<lparr> f_width = JNum 10, f_height = JNum 10, f_x = JNum 0, f_y = JNum 0,
             f_name = JStr ''a'',
             f_objects = [\<lparr> o_type = JStr ''arrow'', o_x = JNull, o_y = JNum 1,
                            o_width = JNum 2, o_height = JNum 2, o_text = JStr [],
                            o_fontSize = JNum 0 \<rparr>] \<rparr>)]
   \<and> emit_object (\<lambda>r. []) (\<lambda>s. s)
         \<lparr> f_width = JNum 10, f_height = JNum 10, f_x = JNum 0, f_y = JNum 0,
           f_name = JStr ''a'',
           f_objects = [\<lparr> o_type = JStr ''arrow'', o_x = JNull, o_y = JNum 1,
                          o_width = JNum 2, o_height = JNum 2, o_text = JStr [],
                          o_fontSize = JNum 0 \<rparr>] \<rparr>
         (Fin (4 / 5))
         \<lparr> o_type = JStr ''arrow'', o_x = JNull, o_y = JNum 1, o_width = JNum 2,
           o_height = JNum 2, o_text = JStr [], o_fontSize = JNum 0 \<rparr>
       = Inl TypeError
   \<and> parse_excalidraw_to_manim (\<lambda>r. []) (\<lambda>s. s) None (Some arrow_document) =
       \<lparr> output_file =
           Some (header @ ''class FrameAScene(Scene):'' @ [nl]
                 @ ''    def construct(self):'' @ [nl]),
         raised = Some TypeError \<rparr>"
  (is "aggregate _ = Inr [(_, ?fr)] \<and> emit_object _ _ _ _ ?arrow = _ \<and> ?run")
proof -
  have agg: "aggregate arrow_document = Inr [(JStr ''a'', ?fr)]"
    by code_simp
  have ne: "arrow_document \<noteq> []"
    by (simp add: arrow_document_def)
  have sc: "frame_scale (Fin 14) (Fin 8) ?fr = Inr (Fin (4 / 5))"
    by (simp add: frame_scale_def fmin_def)
  have ob: "emit_object (\<lambda>r. []) (\<lambda>s. s) ?fr (Fin (4 / 5)) ?arrow = Inl TypeError"
    by (simp add: emit_object_def transform_def obj_x_def)
  have nm: "scene_name (JStr ''a'') = Inr ''FrameAScene''"
    by code_simp
  have fr: "emit_frame (\<lambda>r. []) (\<lambda>s. s) (Fin 14) (Fin 8) ?fr =
              (''class FrameAScene(Scene):'' @ [nl] @ ''    def construct(self):'' @ [nl],
               Some TypeError)"
    by (simp add: emit_frame_def sc nm ob)
  have run: ?run
    using agg ne fr
    by (simp add: parse_excalidraw_to_manim_def manim_frame_size_def elements_def)
  from agg ob run show ?thesis by blast
qed

section \<open>The round trip\<close>




section \<open>The aggregation loop\<close>

lemma dict_key_idem: "dict_key v = Some k \<Longrightarrow> dict_key k = Some k"
  by (cases v) auto

lemma dict_key_null: "dict_key v = Some JNull \<Longrightarrow> v = JNull"
  by (cases v) auto

lemma py_eq_key: "dict_key b = Some k \<Longrightarrow> py_eq a b = (dict_key a = Some k)"
  by (auto simp add: py_eq_def)

lemma find_frame_key: "dict_key fid = Some k \<Longrightarrow> find_frame fid shapes = find_frame k shapes"
  by (simp add: find_frame_def py_eq_key dict_key_idem)

lemma find_frame_found:
  "find_frame fid shapes = Inr fr \<Longrightarrow> fr \<in> set shapes \<and> py_eq (shape_get fr ''id'') fid"
  by (auto simp add: find_frame_def find_Some_iff split: option.splits)

lemma find_frame_error: "find_frame fid shapes = Inl e \<Longrightarrow> e = StopIteration"
  by (auto simp add: find_frame_def split: option.splits)

lemma find_frame_none:
  "\<forall>t \<in> set shapes. \<not> py_eq (shape_get t ''id'') fid \<Longrightarrow> find_frame fid shapes = Inl StopIteration"
  by (auto simp add: find_frame_def find_None_iff split: option.splits)

lemma keys_append_object: "map fst (append_object key obj frames) = map fst frames"
  by (induction frames) auto

lemma set_append_object:
  "distinct (map fst frames) \<Longrightarrow>
   set (append_object key obj frames) =
     (\<lambda>(k, f). (k, if k = key then f\<lparr>f_objects := f_objects f @ [obj]\<rparr> else f)) ` set frames"
proof (induction frames)
  case Nil
  show ?case by simp
next
  case (Cons p frames)
  obtain k f where p: "p = (k, f)" by (cases p)
  show ?case
  proof (cases "k = key")
    case True
    with Cons.prems p have "\<forall>q \<in> set frames. fst q \<noteq> key"
      by auto
    then have "(\<lambda>(k, f). (k, if k = key then f\<lparr>f_objects := f_objects f @ [obj]\<rparr> else f)) ` set frames
                 = set frames"
      by (auto simp add: image_iff split: prod.splits) force
    with True p show ?thesis by simp
  next
    case False
    with Cons p show ?thesis by simp
  qed
qed

text \<open>The exceptions of the loop, and when each is raised.\<close>

lemma add_shape_error:
  "add_shape shapes frames s = Inl e \<Longrightarrow>
     (e = TypeError \<and> dict_key (shape_get s ''frameId'') = None)
   \<or> (e = StopIteration \<and> dict_key (shape_get s ''frameId'') \<noteq> None)"
  by (auto simp add: add_shape_def Let_def split: if_splits option.splits sum.splits
      dest: find_frame_error)

lemma aggregate_from_error:
  "aggregate_from shapes frames rest = Inl e \<Longrightarrow>
     (e = TypeError \<and> (\<exists>t \<in> set rest. dict_key (shape_get t ''frameId'') = None))
   \<or> e = StopIteration"
proof (induction rest arbitrary: frames)
  case Nil
  then show ?case by simp
next
  case (Cons s rest)
  show ?case
  proof (cases "add_shape shapes frames s")
    case (Inl e')
    with Cons.prems have "e' = e" by simp
    with add_shape_error [OF Inl] show ?thesis by auto
  next
    case (Inr frames')
    with Cons.prems have "aggregate_from shapes frames' rest = Inl e" by simp
    from Cons.IH [OF this] show ?thesis by auto
  qed
qed

text \<open>A key that no shape has as its \<open>id\<close> never enters the dictionary.\<close>

lemma add_shape_keys:
  assumes "add_shape shapes frames s = Inr frames'"
  shows "map fst frames' = map fst frames
       \<or> (\<exists>k fr. map fst frames' = map fst frames @ [k] \<and> k \<notin> set (map fst frames)
               \<and> shape_get s ''frameId'' \<noteq> JNull
               \<and> dict_key (shape_get s ''frameId'') = Some k
               \<and> find_frame (shape_get s ''frameId'') shapes = Inr fr)"
  using assms
  by (auto simp add: add_shape_def Let_def keys_append_object
      split: if_splits option.splits sum.splits)

lemma add_shape_no_key:
  assumes "add_shape shapes frames s = Inr frames'"
    and "key \<notin> fst ` set frames"
    and "\<forall>t \<in> set shapes. dict_key (shape_get t ''id'') \<noteq> Some key"
  shows "key \<notin> fst ` set frames'"
proof -
  from add_shape_keys [OF assms(1)]
  consider "map fst frames' = map fst frames"
    | k fr where "map fst frames' = map fst frames @ [k]"
        "dict_key (shape_get s ''frameId'') = Some k"
        "find_frame (shape_get s ''frameId'') shapes = Inr fr"
    by blast
  then have "key \<notin> set (map fst frames')"
  proof cases
    case 1
    with assms(2) show ?thesis by simp
  next
    case 2
    from find_frame_found [OF 2(3)] 2(2)
    have "fr \<in> set shapes" "dict_key (shape_get fr ''id'') = Some k"
      by (simp_all add: py_eq_key)
    with assms(3) have "k \<noteq> key" by auto
    with 2(1) assms(2) show ?thesis by simp
  qed
  then show ?thesis by simp
qed

lemma aggregate_from_dangling:
  assumes "s \<in> set rest"
    and "shape_get s ''frameId'' \<noteq> JNull"
    and "dict_key (shape_get s ''frameId'') = Some key"
    and "\<forall>t \<in> set shapes. dict_key (shape_get t ''id'') \<noteq> Some key"
    and "key \<notin> fst ` set frames"
  shows "\<exists>e. aggregate_from shapes frames rest = Inl e"
  using assms
proof (induction rest arbitrary: frames)
  case Nil
  then show ?case by simp
next
  case (Cons t rest)
  show ?case
  proof (cases "add_shape shapes frames t")
    case (Inl e)
    then show ?thesis by simp
  next
    case (Inr frames')
    note step = add_shape_no_key [OF Inr Cons.prems(5) Cons.prems(4)]
    show ?thesis
    proof (cases "t = s")
      case True
      have "find_frame (shape_get s ''frameId'') shapes = Inl StopIteration"
        using Cons.prems(3,4) by (simp add: find_frame_none py_eq_key)
      with True Cons.prems(2,3,5) have "add_shape shapes frames t = Inl StopIteration"
        by (simp add: add_shape_def Let_def)
      with Inr show ?thesis by simp
    next
      case False
      with Cons.prems(1) have "s \<in> set rest" by simp
      from Cons.IH [OF this Cons.prems(2,3,4) step] Inr show ?thesis by simp
    qed
  qed
qed

lemma aggregate_from_unhashable:
  assumes "s \<in> set rest" and "dict_key (shape_get s ''frameId'') = None"
  shows "\<exists>e. aggregate_from shapes frames rest = Inl e"
  using assms
proof (induction rest arbitrary: frames)
  case Nil
  then show ?case by simp
next
  case (Cons t rest)
  show ?case
  proof (cases "add_shape shapes frames t")
    case (Inl e)
    then show ?thesis by simp
  next
    case (Inr frames')
    have "t \<noteq> s"
    proof
      assume "t = s"
      with Cons.prems(2) have "add_shape shapes frames t = Inl TypeError"
        by (auto simp add: add_shape_def Let_def)
      with Inr show False by simp
    qed
    with Cons.prems(1) have "s \<in> set rest" by auto
    from Cons.IH [OF this Cons.prems(2)] Inr show ?thesis by simp
  qed
qed

text \<open>
  C4, as amended. When some shape has a \<open>frameId\<close> other than \<open>null\<close> and no shape has
  an \<open>id\<close> equal to it, the aggregation fails and the output file is never opened. The
  exception is \<open>StopIteration\<close>, raised by the search that found nothing; it has no
  argument, so it does not name the \<open>frameId\<close>. Only when some \<open>frameId\<close> is a list or a
  dictionary can the exception be \<open>TypeError\<close> instead.
\<close>

theorem dangling_frame_id_stop_iteration:
  assumes "s \<in> set shapes"
    and "shape_get s ''frameId'' \<noteq> JNull"
    and "\<forall>t \<in> set shapes. \<not> py_eq (shape_get t ''id'') (shape_get s ''frameId'')"
  shows "(aggregate shapes = Inl StopIteration \<or> aggregate shapes = Inl TypeError)
       \<and> ((\<forall>t \<in> set shapes. dict_key (shape_get t ''frameId'') \<noteq> None)
            \<longrightarrow> aggregate shapes = Inl StopIteration)
       \<and> (manim_frame_size cfg = Inr canvas
            \<longrightarrow> output_file (parse_excalidraw_to_manim fmt repr cfg (Some shapes)) = None
              \<and> raised (parse_excalidraw_to_manim fmt repr cfg (Some shapes))
                  \<in> {Some StopIteration, Some TypeError})"
proof -
  have "\<exists>e. aggregate shapes = Inl e"
  proof (cases "dict_key (shape_get s ''frameId'')")
    case None
    with assms(1) show ?thesis
      unfolding aggregate_def by (rule aggregate_from_unhashable)
  next
    case (Some key)
    with assms(3) have "\<forall>t \<in> set shapes. dict_key (shape_get t ''id'') \<noteq> Some key"
      by (simp add: py_eq_key)
    with assms(1,2) Some show ?thesis
      unfolding aggregate_def by (intro aggregate_from_dangling [where s = s and key = key]) simp_all
  qed
  then obtain e where e: "aggregate shapes = Inl e" ..
  from aggregate_from_error [OF e [unfolded aggregate_def] ]
  have kinds: "(e = TypeError \<and> (\<exists>t \<in> set shapes. dict_key (shape_get t ''frameId'') = None))
               \<or> e = StopIteration" .
  have ne: "shapes \<noteq> []"
    using assms(1) by auto
  have run: "output_file (parse_excalidraw_to_manim fmt repr cfg (Some shapes)) = None
           \<and> raised (parse_excalidraw_to_manim fmt repr cfg (Some shapes)) = Some e"
    if "manim_frame_size cfg = Inr canvas"
    using that e ne
    by (cases canvas) (simp add: parse_excalidraw_to_manim_def elements_def)
  from e kinds run show ?thesis by auto
qed

theorem dangling_frame_id_stop_iteration_witness:
  "aggregate [ [''id'' \<mapsto> JStr ''r'', ''type'' \<mapsto> JStr ''rectangle'', ''frameId'' \<mapsto> JStr ''ghost''] ]
     = Inl StopIteration
   \<and> output_file
       (parse_excalidraw_to_manim (\<lambda>r. []) (\<lambda>s. s) None
          (Some [ [''id'' \<mapsto> JStr ''r'', ''type'' \<mapsto> JStr ''rectangle'',
                  ''frameId'' \<mapsto> JStr ''ghost''] ])) = None"
  using dangling_frame_id_stop_iteration
    [of "[''id'' \<mapsto> JStr ''r'', ''type'' \<mapsto> JStr ''rectangle'', ''frameId'' \<mapsto> JStr ''ghost'']"
        "[ [''id'' \<mapsto> JStr ''r'', ''type'' \<mapsto> JStr ''rectangle'', ''frameId'' \<mapsto> JStr ''ghost''] ]"
        None "(Fin 14, Fin 8)" "\<lambda>r. []" "\<lambda>s. s"]
  by (simp add: shape_get_def py_eq_def manim_frame_size_def)

text \<open>
  C4, as stated, fails: the exception for a \<open>frameId\<close> that no shape has as its \<open>id\<close> is
  \<open>StopIteration\<close>, which is no error of the converter's own and names nothing.
\<close>

theorem missing_frame_counterexample:
  "aggregate [ [''id'' \<mapsto> JStr ''r'', ''type'' \<mapsto> JStr ''rectangle'', ''frameId'' \<mapsto> JStr ''ghost''] ]
     = Inl StopIteration"
  by (simp add: aggregate_def add_shape_def shape_get_def find_frame_def py_eq_def)

section \<open>The objects of a frame\<close>

lemma add_shape_result:
  assumes "add_shape shapes frames s = Inr frames'"
  shows "(shape_get s ''frameId'' = JNull \<and> frames' = frames)
       \<or> (\<exists>key base.
             shape_get s ''frameId'' \<noteq> JNull
             \<and> dict_key (shape_get s ''frameId'') = Some key
             \<and> frames' = append_object key (new_object s) base
             \<and> (key \<in> fst ` set frames \<and> base = frames
                \<or> key \<notin> fst ` set frames
                  \<and> (\<exists>fr. find_frame key shapes = Inr fr \<and> base = frames @ [(key, new_frame fr)])))"
proof (cases "shape_get s ''frameId'' = JNull")
  case True
  with assms show ?thesis by (simp add: add_shape_def)
next
  case False
  with assms obtain key where key: "dict_key (shape_get s ''frameId'') = Some key"
    by (cases "dict_key (shape_get s ''frameId'')") (simp_all add: add_shape_def Let_def)
  note same = find_frame_key [OF key, of shapes]
  show ?thesis
  proof (cases "key \<in> fst ` set frames")
    case True
    with assms False key show ?thesis by (simp add: add_shape_def Let_def)
  next
    case notin: False
    with assms False key obtain fr where "find_frame (shape_get s ''frameId'') shapes = Inr fr"
      and "frames' = append_object key (new_object s) (frames @ [(key, new_frame fr)])"
      by (cases "find_frame (shape_get s ''frameId'') shapes") (simp_all add: add_shape_def Let_def)
    with same have "find_frame key shapes = Inr fr"
      by simp
    with False key notin \<open>frames' = append_object key (new_object s) (frames @ [(key, new_frame fr)])\<close>
    show ?thesis by blast
  qed
qed

lemma in_frame_unique: "in_frame k t \<Longrightarrow> in_frame k' t \<Longrightarrow> k = k'"
  by (simp add: in_frame_def)

lemma frames_inv_append_object:
  assumes "frames_inv shapes seen base"
    and "in_frame key s"
    and "key \<in> fst ` set base"
  shows "frames_inv shapes (seen @ [s]) (append_object key (new_object s) base)"
proof -
  let ?upd = "\<lambda>(k, f). (k, if k = key then f\<lparr>f_objects := f_objects f @ [new_object s]\<rparr> else f)"
  from assms(1) have d: "distinct (map fst base)"
    by (simp add: frames_inv_def)
  have st: "set (append_object key (new_object s) base) = ?upd ` set base"
    using d by (rule set_append_object)
  have keys: "fst ` set (append_object key (new_object s) base) = fst ` set base"
    using keys_append_object [of key "new_object s" base] by (metis set_map)
  have other: "\<not> in_frame k s" if "k \<noteq> key" for k
    using that assms(2) in_frame_unique by blast
  have entries: "k \<noteq> JNull
        \<and> f_objects f' = map new_object (filter (in_frame k) (seen @ [s]))
        \<and> (\<exists>fr. find_frame k shapes = Inr fr \<and> f'\<lparr>f_objects := []\<rparr> = new_frame fr)"
    if "(k, f') \<in> set (append_object key (new_object s) base)" for k f'
  proof -
    from that st obtain f where f: "(k, f) \<in> set base"
      and f': "f' = (if k = key then f\<lparr>f_objects := f_objects f @ [new_object s]\<rparr> else f)"
      by auto
    from assms(1) f have old: "k \<noteq> JNull"
      "f_objects f = map new_object (filter (in_frame k) seen)"
      "\<exists>fr. find_frame k shapes = Inr fr \<and> f\<lparr>f_objects := []\<rparr> = new_frame fr"
      by (auto simp add: frames_inv_def)
    show ?thesis
    proof (cases "k = key")
      case True
      with f' old assms(2) show ?thesis by simp
    next
      case False
      with f' old other show ?thesis by simp
    qed
  qed
  have seen: "k \<in> fst ` set (append_object key (new_object s) base)"
    if "t \<in> set (seen @ [s])" "in_frame k t" for t k
  proof (cases "t = s")
    case True
    with that(2) assms(2) have "k = key" by (simp add: in_frame_unique)
    with assms(3) keys show ?thesis by simp
  next
    case False
    with that assms(1) keys show ?thesis
      by (auto simp add: frames_inv_def)
  qed
  show ?thesis
    unfolding frames_inv_def
    using d entries seen by (auto simp add: keys_append_object)
qed

lemma frames_inv_new_frame:
  assumes "frames_inv shapes seen frames"
    and "key \<notin> fst ` set frames"
    and "key \<noteq> JNull"
    and "find_frame key shapes = Inr fr"
  shows "frames_inv shapes seen (frames @ [(key, new_frame fr)])"
proof -
  from assms(1,2) have "filter (in_frame key) seen = []"
    by (auto simp add: frames_inv_def filter_empty_conv)
  with assms show ?thesis
    by (auto simp add: frames_inv_def new_frame_def)
qed

lemma frames_inv_skip:
  assumes "frames_inv shapes seen frames" and "shape_get s ''frameId'' = JNull"
  shows "frames_inv shapes (seen @ [s]) frames"
proof -
  from assms(2) have "\<not> in_frame k s" for k
    by (simp add: in_frame_def)
  with assms(1) show ?thesis
    by (auto simp add: frames_inv_def)
qed

lemma frames_inv_add_shape:
  assumes "add_shape shapes frames s = Inr frames'" and "frames_inv shapes seen frames"
  shows "frames_inv shapes (seen @ [s]) frames'"
proof -
  from add_shape_result [OF assms(1)]
  consider "shape_get s ''frameId'' = JNull" "frames' = frames"
    | key where "in_frame key s" "key \<in> fst ` set frames"
        "frames' = append_object key (new_object s) frames"
    | key fr where "in_frame key s" "key \<notin> fst ` set frames" "find_frame key shapes = Inr fr"
        "frames' = append_object key (new_object s) (frames @ [(key, new_frame fr)])"
    by (auto simp add: in_frame_def)
  then show ?thesis
  proof cases
    case 1
    with assms(2) show ?thesis by (simp add: frames_inv_skip)
  next
    case 2
    with assms(2) show ?thesis by (simp add: frames_inv_append_object)
  next
    case 3
    from 3(1) have "key \<noteq> JNull"
      by (auto simp add: in_frame_def dest: dict_key_null)
    with assms(2) 3(2,3) have "frames_inv shapes seen (frames @ [(key, new_frame fr)])"
      by (simp add: frames_inv_new_frame)
    with 3(1,4) show ?thesis by (simp add: frames_inv_append_object)
  qed
qed

lemma frames_inv_aggregate_from:
  "aggregate_from shapes frames rest = Inr frames' \<Longrightarrow> frames_inv shapes seen frames \<Longrightarrow>
   frames_inv shapes (seen @ rest) frames'"
proof (induction rest arbitrary: frames seen)
  case Nil
  then show ?case by simp
next
  case (Cons s rest)
  from Cons.prems(1) obtain mid where mid: "add_shape shapes frames s = Inr mid"
    and rest: "aggregate_from shapes mid rest = Inr frames'"
    by (auto split: sum.splits)
  from frames_inv_add_shape [OF mid Cons.prems(2)]
  have "frames_inv shapes (seen @ [s]) mid" .
  from Cons.IH [OF rest this] show ?case by simp
qed

lemma frames_inv_aggregate: "aggregate shapes = Inr frames \<Longrightarrow> frames_inv shapes shapes frames"
  using frames_inv_aggregate_from [of shapes "[]" shapes frames "[]"]
  by (simp add: aggregate_def frames_inv_def)

text \<open>
  C8, as amended. After a successful aggregation, the objects of a frame are the objects
  built from the shapes whose \<open>frameId\<close> is the frame's key, one for each, in the order
  of the document. The geometry of the frame is that of the first shape whose \<open>id\<close> is the
  key, and this shape is one of those shapes exactly when its own \<open>frameId\<close> is the key:
  a frame shape that names itself is a member of its own objects, and no other frame
  shape is.
\<close>

theorem frame_objects_are_its_members:
  assumes "aggregate shapes = Inr frames" and "(key, f) \<in> set frames"
  shows "f_objects f = map new_object (filter (in_frame key) shapes)
       \<and> (\<exists>fr. find_frame key shapes = Inr fr
               \<and> f\<lparr>f_objects := []\<rparr> = new_frame fr
               \<and> (fr \<in> set (filter (in_frame key) shapes)) = in_frame key fr)"
proof -
  from frames_inv_aggregate [OF assms(1)] assms(2)
  have objs: "f_objects f = map new_object (filter (in_frame key) shapes)"
    and "\<exists>fr. find_frame key shapes = Inr fr \<and> f\<lparr>f_objects := []\<rparr> = new_frame fr"
    by (auto simp add: frames_inv_def)
  then obtain fr where fr: "find_frame key shapes = Inr fr" "f\<lparr>f_objects := []\<rparr> = new_frame fr"
    by blast
  from find_frame_found [OF fr(1)] have "fr \<in> set shapes" by simp
  then have "(fr \<in> set (filter (in_frame key) shapes)) = in_frame key fr"
    by simp
  with objs fr show ?thesis by blast
qed

theorem frame_objects_are_its_members_witness:
  "f_objects
     \<lparr> f_width = JNum 1400, f_height = JNum 800, f_x = JNum 0, f_y = JNum 0,
       f_name = JStr ''Intro Scene'',
       f_objects = [\<lparr> o_type = JStr ''rectangle'', o_x = JNum 700, o_y = JNum 400,
                      o_width = JNum 100, o_height = JNum 100, o_text = JStr [],
                      o_fontSize = JNum 0 \<rparr>] \<rparr>
     = [new_object intro_rectangle]
   \<and> find_frame (JStr ''frame1'') [intro_frame, intro_rectangle] = Inr intro_frame
   \<and> intro_frame \<notin> set (filter (in_frame (JStr ''frame1'')) [intro_frame, intro_rectangle])"
proof -
  have found: "find_frame (JStr ''frame1'') [intro_frame, intro_rectangle] = Inr intro_frame"
    by (simp add: find_frame_def py_eq_def intro_ids)
  have members: "filter (in_frame (JStr ''frame1'')) [intro_frame, intro_rectangle]
                   = [intro_rectangle]"
    by (simp add: in_frame_def intro_ids)
  show ?thesis
    using frame_objects_are_its_members
      [OF aggregate_intro, of "JStr ''frame1''"
          "\<lparr> f_width = JNum 1400, f_height = JNum 800, f_x = JNum 0, f_y = JNum 0,
             f_name = JStr ''Intro Scene'',
             f_objects = [\<lparr> o_type = JStr ''rectangle'', o_x = JNum 700, o_y = JNum 400,
                            o_width = JNum 100, o_height = JNum 100, o_text = JStr [],
                            o_fontSize = JNum 0 \<rparr>] \<rparr>"]
      found members
    by (simp add: in_frame_def intro_ids)
qed

text \<open>
  C8, as stated, fails: for a shape that names itself as its frame, the frame is built
  from that shape and the only object of the frame is built from that shape too.
\<close>

theorem self_frame_counterexample:
  "find_frame (JStr ''a'') [self_frame] = Inr self_frame
   \<and> in_frame (JStr ''a'') self_frame
   \<and> aggregate [self_frame]
       = Inr [(JStr ''a'', (new_frame self_frame)\<lparr>f_objects := [new_object self_frame]\<rparr>)]"
proof -
  have ids: "shape_get self_frame ''id'' = JStr ''a''"
    "shape_get self_frame ''frameId'' = JStr ''a''"
    by (simp_all add: self_frame_def shape_get_def)
  have "f_objects (new_frame self_frame) = []"
    by (simp add: new_frame_def)
  with ids show ?thesis
    by (simp add: aggregate_def add_shape_def find_frame_def py_eq_def in_frame_def)
qed

end
